theory Spec2Isabelle
  imports Complex_Main
begin

section \<open>Python values used by the notebook\<close>

subsection \<open>Floats\<close>

text \<open>
  A Python \<^verbatim>\<open>float\<close> (and a numpy \<^verbatim>\<open>float64\<close>) is an IEEE-754 binary64 number.
  A finite one is represented by the rational number it denotes, so every finite double is a
  value \<open>Fin q\<close>. The two zeros are the one value \<open>Fin 0\<close>: the notebook's code compares
  floats, multiplies them and divides by 40.0, which yields equal results for both zeros.
\<close>

datatype pyfloat = Fin rat | PInf | NInf | NaN

text \<open>\<^verbatim>\<open>a == b\<close>: a NaN is equal to nothing, itself included.\<close>

fun feq :: "pyfloat \<Rightarrow> pyfloat \<Rightarrow> bool" where
  "feq (Fin a) (Fin b) = (a = b)"
| "feq PInf PInf = True"
| "feq NInf NInf = True"
| "feq _ _ = False"

text \<open>\<^verbatim>\<open>a <= b\<close> and \<^verbatim>\<open>a < b\<close>: false as soon as one side is a NaN.\<close>

fun fle :: "pyfloat \<Rightarrow> pyfloat \<Rightarrow> bool" where
  "fle NaN _ = False"
| "fle _ NaN = False"
| "fle NInf _ = True"
| "fle _ PInf = True"
| "fle (Fin a) (Fin b) = (a \<le> b)"
| "fle _ _ = False"

fun flt :: "pyfloat \<Rightarrow> pyfloat \<Rightarrow> bool" where
  "flt (Fin a) (Fin b) = (a < b)"
| "flt (Fin a) PInf = True"
| "flt NInf (Fin b) = True"
| "flt NInf PInf = True"
| "flt _ _ = False"

text \<open>
  Rounding of an exact result to binary64, to nearest with ties to even: 53 significant
  bits, the exponent of the least significant bit at least \<open>-1074\<close>, and an infinity when
  the rounded value reaches \<open>2^1024\<close>.
\<close>

definition pow2 :: "int \<Rightarrow> rat" where
  "pow2 e = (if 0 \<le> e then 2 ^ nat e else 1 / 2 ^ nat (- e))"

function bit_length :: "int \<Rightarrow> int" where
  "bit_length n = (if n \<le> 0 then 0 else 1 + bit_length (n div 2))"
  by pat_completeness auto
termination
  by (relation "measure nat") auto

declare bit_length.simps [simp del]

text \<open>
  \<open>bit_length n\<close> is Python's \<^verbatim>\<open>n.bit_length()\<close> for \<open>n \<ge> 0\<close>, and \<open>floor_log2 a\<close> is the
  \<open>e\<close> with \<open>2^e \<le> a < 2^(e+1)\<close>, for \<open>a > 0\<close>.
\<close>

definition floor_log2 :: "rat \<Rightarrow> int" where
  "floor_log2 a =
     (if 1 \<le> a then bit_length \<lfloor>a\<rfloor> - 1
      else let k = bit_length \<lfloor>1 / a\<rfloor> - 1 in if pow2 (- k) \<le> a then - k else - k - 1)"

definition round_half_even :: "rat \<Rightarrow> int" where
  "round_half_even y =
     (let n = \<lfloor>y\<rfloor>; r = y - of_int n
      in if r < 1 / 2 then n else if 1 / 2 < r then n + 1 else if even n then n else n + 1)"

definition rnd :: "rat \<Rightarrow> pyfloat" where
  "rnd q =
     (if q = 0 then Fin 0
      else let a = \<bar>q\<bar>;
               e = max (floor_log2 a) (- 1022);
               ulp = pow2 (e - 52);
               v = of_int (round_half_even (a / ulp)) * ulp
           in if pow2 1024 \<le> v then (if 0 < q then PInf else NInf)
              else Fin (if 0 < q then v else - v))"

text \<open>\<^verbatim>\<open>a * b\<close> and \<^verbatim>\<open>a - b\<close>: the exact result, rounded.\<close>

fun fmul :: "pyfloat \<Rightarrow> pyfloat \<Rightarrow> pyfloat" where
  "fmul (Fin a) (Fin b) = rnd (a * b)"
| "fmul NaN _ = NaN"
| "fmul _ NaN = NaN"
| "fmul (Fin a) PInf = (if a = 0 then NaN else if 0 < a then PInf else NInf)"
| "fmul (Fin a) NInf = (if a = 0 then NaN else if 0 < a then NInf else PInf)"
| "fmul PInf (Fin b) = (if b = 0 then NaN else if 0 < b then PInf else NInf)"
| "fmul NInf (Fin b) = (if b = 0 then NaN else if 0 < b then NInf else PInf)"
| "fmul PInf PInf = PInf"
| "fmul PInf NInf = NInf"
| "fmul NInf PInf = NInf"
| "fmul NInf NInf = PInf"

fun fsub :: "pyfloat \<Rightarrow> pyfloat \<Rightarrow> pyfloat" where
  "fsub (Fin a) (Fin b) = rnd (a - b)"
| "fsub NaN _ = NaN"
| "fsub _ NaN = NaN"
| "fsub PInf PInf = NaN"
| "fsub NInf NInf = NaN"
| "fsub PInf _ = PInf"
| "fsub NInf _ = NInf"
| "fsub (Fin a) PInf = NInf"
| "fsub (Fin a) NInf = PInf"

subsection \<open>Exceptions\<close>

text \<open>
  \<open>ShapeError\<close> stands for an array assignment between shapes that do not match: numpy
  raises \<^verbatim>\<open>ValueError\<close> or \<^verbatim>\<open>IndexError\<close> there, unless it can stretch an axis of
  length one, which the arrays of a coefficient store never need. \<open>External\<close> is an
  exception raised inside the framework.
\<close>

datatype exn =
    IndexError
  | KeyError
  | ShapeError
  | ZeroDivisionError
  | OverflowError
  | AssertionError
  | External string

definition and_then :: "exn + 'a \<Rightarrow> ('a \<Rightarrow> exn + 'b) \<Rightarrow> exn + 'b" where
  "and_then r f = (case r of Inl e \<Rightarrow> Inl e | Inr v \<Rightarrow> f v)"

text \<open>\<^verbatim>\<open>xs[i]\<close> for a non-negative literal index \<open>i\<close>.\<close>

definition index :: "'a list \<Rightarrow> nat \<Rightarrow> exn + 'a" where
  "index xs i = (if i < length xs then Inr (xs ! i) else Inl IndexError)"

text \<open>
  \<^verbatim>\<open>a / b\<close> on floats raises when the divisor is zero, and \<^verbatim>\<open>float(i)\<close> raises when
  the integer is too large.
\<close>

fun fdiv :: "pyfloat \<Rightarrow> pyfloat \<Rightarrow> exn + pyfloat" where
  "fdiv x (Fin b) =
     (if b = 0 then Inl ZeroDivisionError
      else Inr (case x of Fin a \<Rightarrow> rnd (a / b) | NaN \<Rightarrow> NaN
                | PInf \<Rightarrow> (if 0 < b then PInf else NInf)
                | NInf \<Rightarrow> (if 0 < b then NInf else PInf)))"
| "fdiv x NaN = Inr NaN"
| "fdiv (Fin a) y = Inr (Fin 0)"
| "fdiv x y = Inr NaN"

definition float_of_int :: "int \<Rightarrow> exn + pyfloat" where
  "float_of_int i = (case rnd (of_int i) of Fin q \<Rightarrow> Inr (Fin q) | y \<Rightarrow> Inl OverflowError)"

text \<open>A list comprehension whose element expression may raise.\<close>

fun comprehension :: "('a \<Rightarrow> exn + 'b) \<Rightarrow> 'a list \<Rightarrow> exn + 'b list" where
  "comprehension f [] = Inr []"
| "comprehension f (x # xs) =
     and_then (f x) (\<lambda>y. and_then (comprehension f xs) (\<lambda>ys. Inr (y # ys)))"

subsection \<open>Truth values\<close>

text \<open>The values a failure flag can be, and what \<^verbatim>\<open>not\<close> and \<^verbatim>\<open>if\<close> make of them.\<close>

datatype pyval = PyNone | PyBool bool | PyInt int | PyFloat pyfloat | PyStr string

fun truthy :: "pyval \<Rightarrow> bool" where
  "truthy PyNone = False"
| "truthy (PyBool b) = b"
| "truthy (PyInt i) = (i \<noteq> 0)"
| "truthy (PyFloat x) = (\<not> feq x (Fin 0))"
| "truthy (PyStr s) = (s \<noteq> [])"

section \<open>The coefficients class \<open>LADR\<close>\<close>

subsection \<open>Arrays of the coefficient store\<close>

text \<open>
  The framework hands \<open>evaluate\<close> a dictionary \<open>c\<close> of numpy arrays, one value per
  quadrature point: an array of shape \<open>(\<dots>)\<close> is the list of its entries, one of shape
  \<open>(\<dots>, d)\<close> the list of its rows, one of shape \<open>(\<dots>, d, d)\<close> the list of its matrices,
  the leading axes laid out in order. Distinct keys hold distinct arrays.
\<close>

datatype ndarray =
    Scalars "pyfloat list"
  | Vectors "pyfloat list list"
  | Tensors "pyfloat list list list"

type_synonym ckey = "string \<times> nat list"

type_synonym store = "ckey \<rightharpoonup> ndarray"

definition lookup :: "store \<Rightarrow> ckey \<Rightarrow> exn + ndarray" where
  "lookup c k = (case c k of None \<Rightarrow> Inl KeyError | Some a \<Rightarrow> Inr a)"

text \<open>\<^verbatim>\<open>s * a\<close> for a float \<open>s\<close> and an array \<open>a\<close>.\<close>

fun scale :: "pyfloat \<Rightarrow> ndarray \<Rightarrow> ndarray" where
  "scale s (Scalars xs) = Scalars (map (fmul s) xs)"
| "scale s (Vectors vs) = Vectors (map (map (fmul s)) vs)"
| "scale s (Tensors ts) = Tensors (map (map (map (fmul s))) ts)"

fun same_shape :: "ndarray \<Rightarrow> ndarray \<Rightarrow> bool" where
  "same_shape (Scalars xs) (Scalars ys) = (length xs = length ys)"
| "same_shape (Vectors vs) (Vectors ws) = (map length vs = map length ws)"
| "same_shape (Tensors ts) (Tensors us) = (map (map length) ts = map (map length) us)"
| "same_shape _ _ = False"

text \<open>\<^verbatim>\<open>a[:] = b\<close> for an array \<open>b\<close>, and \<^verbatim>\<open>a[:] = s\<close> for a float \<open>s\<close>.\<close>

definition assign_all :: "ndarray \<Rightarrow> ndarray \<Rightarrow> exn + ndarray" where
  "assign_all a b = (if same_shape a b then Inr b else Inl ShapeError)"

fun fill :: "ndarray \<Rightarrow> pyfloat \<Rightarrow> ndarray" where
  "fill (Scalars xs) s = Scalars (map (\<lambda>x. s) xs)"
| "fill (Vectors vs) s = Vectors (map (map (\<lambda>x. s)) vs)"
| "fill (Tensors ts) s = Tensors (map (map (map (\<lambda>x. s))) ts)"

text \<open>\<^verbatim>\<open>a[...,k] = b\<close> for an array \<open>b\<close>, and \<^verbatim>\<open>a[...,k] = s\<close> for a float \<open>s\<close>.\<close>

fun assign_component :: "ndarray \<Rightarrow> nat \<Rightarrow> ndarray \<Rightarrow> exn + ndarray" where
  "assign_component (Vectors vs) k (Scalars ys) =
     (if \<exists>v \<in> set vs. length v \<le> k then Inl IndexError
      else if length ys = length vs then Inr (Vectors (map2 (\<lambda>v y. v[k := y]) vs ys))
      else Inl ShapeError)"
| "assign_component _ k _ = Inl ShapeError"

fun fill_component :: "ndarray \<Rightarrow> nat \<Rightarrow> pyfloat \<Rightarrow> exn + ndarray" where
  "fill_component (Vectors vs) k s =
     (if \<exists>v \<in> set vs. length v \<le> k then Inl IndexError
      else Inr (Vectors (map (\<lambda>v. v[k := s]) vs)))"
| "fill_component _ k s = Inl ShapeError"

text \<open>\<^verbatim>\<open>a[...,i,j] = s\<close> for a float \<open>s\<close>.\<close>

fun fill_entry :: "ndarray \<Rightarrow> nat \<Rightarrow> nat \<Rightarrow> pyfloat \<Rightarrow> exn + ndarray" where
  "fill_entry (Tensors ts) i j s =
     (if \<exists>t \<in> set ts. length t \<le> i \<or> length (t ! i) \<le> j then Inl IndexError
      else Inr (Tensors (map (\<lambda>t. t[i := (t ! i)[j := s]]) ts)))"
| "fill_entry _ i j s = Inl ShapeError"

text \<open>One statement \<^verbatim>\<open>c[k][\<dots>] = \<dots>\<close>: the array at key \<open>k\<close> is looked up and written.\<close>

definition setitem :: "store \<Rightarrow> ckey \<Rightarrow> (ndarray \<Rightarrow> exn + ndarray) \<Rightarrow> exn + store" where
  "setitem c k f = and_then (lookup c k) (\<lambda>a. and_then (f a) (\<lambda>a'. Inr (c(k \<mapsto> a'))))"

subsection \<open>The class\<close>

text \<open>
  \<^verbatim>\<open>
  class LADR(TransportCoefficients.TC_base):
      def __init__(self,M,A,B,C):
          TransportCoefficients.TC_base.__init__(self, nc=1, ...)
          self.M=M;
          self.A=A;
          self.B=B;
          self.C=C;
  \<close>
\<close>

record LADR =
  M :: pyfloat
  A :: "pyfloat list list"
  B :: "pyfloat list"
  C :: pyfloat

definition LADR_init :: "pyfloat \<Rightarrow> pyfloat list list \<Rightarrow> pyfloat list \<Rightarrow> pyfloat \<Rightarrow> LADR" where
  "LADR_init m a b c = \<lparr>M = m, A = a, B = b, C = c\<rparr>"

text \<open>
  \<^verbatim>\<open>
      def evaluate(self,t,c):
          c[('m',0)][:]         = self.M*c[('u',0)]
          c[('dm',0,0)][:]      = self.M
          c[('f',0)][...,0]     = self.B[0]*c[('u',0)]
          c[('f',0)][...,1]     = self.B[1]*c[('u',0)]
          c[('df',0,0)][...,0]  = self.B[0]
          c[('df',0,0)][...,1]  = self.B[1]
          c[('a',0,0)][...,0,0] = self.A[0][0]
          c[('a',0,0)][...,1,1] = self.A[1][1]
          c[('r',0)][:]         = self.C*c[('u',0)]
          c[('dr',0,0)][:]      = self.C
  \<close>
  Each statement evaluates its right-hand side, then looks up the array on the left and
  writes into it. The store returned is \<open>c\<close> after the ten statements.
\<close>

definition evaluate :: "LADR \<Rightarrow> pyfloat \<Rightarrow> store \<Rightarrow> exn + store" where
  "evaluate self t c0 =
     and_then (lookup c0 (''u'', [0])) (\<lambda>u.
     and_then (setitem c0 (''m'', [0]) (\<lambda>a. assign_all a (scale (M self) u))) (\<lambda>c1.
     and_then (setitem c1 (''dm'', [0, 0]) (\<lambda>a. Inr (fill a (M self)))) (\<lambda>c2.
     and_then (index (B self) 0) (\<lambda>b0.
     and_then (lookup c2 (''u'', [0])) (\<lambda>u.
     and_then (setitem c2 (''f'', [0]) (\<lambda>a. assign_component a 0 (scale b0 u))) (\<lambda>c3.
     and_then (index (B self) 1) (\<lambda>b1.
     and_then (lookup c3 (''u'', [0])) (\<lambda>u.
     and_then (setitem c3 (''f'', [0]) (\<lambda>a. assign_component a 1 (scale b1 u))) (\<lambda>c4.
     and_then (index (B self) 0) (\<lambda>b0.
     and_then (setitem c4 (''df'', [0, 0]) (\<lambda>a. fill_component a 0 b0)) (\<lambda>c5.
     and_then (index (B self) 1) (\<lambda>b1.
     and_then (setitem c5 (''df'', [0, 0]) (\<lambda>a. fill_component a 1 b1)) (\<lambda>c6.
     and_then (index (A self) 0) (\<lambda>row0.
     and_then (index row0 0) (\<lambda>a00.
     and_then (setitem c6 (''a'', [0, 0]) (\<lambda>a. fill_entry a 0 0 a00)) (\<lambda>c7.
     and_then (index (A self) 1) (\<lambda>row1.
     and_then (index row1 1) (\<lambda>a11.
     and_then (setitem c7 (''a'', [0, 0]) (\<lambda>a. fill_entry a 1 1 a11)) (\<lambda>c8.
     and_then (lookup c8 (''u'', [0])) (\<lambda>u.
     and_then (setitem c8 (''r'', [0]) (\<lambda>a. assign_all a (scale (C self) u))) (\<lambda>c9.
     setitem c9 (''dr'', [0, 0]) (\<lambda>a. Inr (fill a (C self)))
     )))))))))))))))))))))"

text \<open>
  The store the framework allocates for \<open>n\<close> quadrature points in two dimensions: scalar
  arrays for \<open>u\<close>, \<open>m\<close>, \<open>dm\<close>, \<open>r\<close>, \<open>dr\<close>, arrays of 2-vectors for \<open>f\<close> and \<open>df\<close>, an
  array of 2 by 2 matrices for \<open>a\<close>; and constructor arguments of that dimension.
\<close>

definition scalars_at :: "store \<Rightarrow> ckey \<Rightarrow> nat \<Rightarrow> bool" where
  "scalars_at c k n = (case c k of Some (Scalars xs) \<Rightarrow> length xs = n | _ \<Rightarrow> False)"

definition vectors_at :: "store \<Rightarrow> ckey \<Rightarrow> nat \<Rightarrow> bool" where
  "vectors_at c k n =
     (case c k of Some (Vectors vs) \<Rightarrow> length vs = n \<and> list_all (\<lambda>v. length v = 2) vs
      | _ \<Rightarrow> False)"

definition square :: "pyfloat list list \<Rightarrow> bool" where
  "square t = (length t = 2 \<and> list_all (\<lambda>row. length row = 2) t)"

definition tensors_at :: "store \<Rightarrow> ckey \<Rightarrow> nat \<Rightarrow> bool" where
  "tensors_at c k n =
     (case c k of Some (Tensors ts) \<Rightarrow> length ts = n \<and> list_all square ts | _ \<Rightarrow> False)"

definition allocated :: "store \<Rightarrow> pyfloat list \<Rightarrow> bool" where
  "allocated c us =
     (c (''u'', [0]) = Some (Scalars us)
      \<and> scalars_at c (''m'', [0]) (length us) \<and> scalars_at c (''dm'', [0, 0]) (length us)
      \<and> vectors_at c (''f'', [0]) (length us) \<and> vectors_at c (''df'', [0, 0]) (length us)
      \<and> tensors_at c (''a'', [0, 0]) (length us)
      \<and> scalars_at c (''r'', [0]) (length us) \<and> scalars_at c (''dr'', [0, 0]) (length us))"

definition two_dimensional :: "LADR \<Rightarrow> bool" where
  "two_dimensional self = (length (B self) = 2 \<and> square (A self))"

text \<open>
  The coefficients \<open>evaluate\<close> writes at one quadrature point where the solution is \<open>u\<close>:
  the store holds zeros before the call, and the entries are read back after it.
\<close>

definition one_point :: "pyfloat \<Rightarrow> store" where
  "one_point u =
     [(''u'', [0]) \<mapsto> Scalars [u],
      (''m'', [0]) \<mapsto> Scalars [Fin 0], (''dm'', [0, 0]) \<mapsto> Scalars [Fin 0],
      (''f'', [0]) \<mapsto> Vectors [[Fin 0, Fin 0]], (''df'', [0, 0]) \<mapsto> Vectors [[Fin 0, Fin 0]],
      (''a'', [0, 0]) \<mapsto> Tensors [[[Fin 0, Fin 0], [Fin 0, Fin 0]]],
      (''r'', [0]) \<mapsto> Scalars [Fin 0], (''dr'', [0, 0]) \<mapsto> Scalars [Fin 0]]"

definition scalar_at :: "exn + store \<Rightarrow> ckey \<Rightarrow> pyfloat" where
  "scalar_at r k = (case r of Inr c \<Rightarrow> (case c k of Some (Scalars [x]) \<Rightarrow> x | _ \<Rightarrow> NaN) | _ \<Rightarrow> NaN)"

definition vector_at :: "exn + store \<Rightarrow> ckey \<Rightarrow> pyfloat list" where
  "vector_at r k = (case r of Inr c \<Rightarrow> (case c k of Some (Vectors [v]) \<Rightarrow> v | _ \<Rightarrow> []) | _ \<Rightarrow> [])"

definition tensor_at :: "exn + store \<Rightarrow> ckey \<Rightarrow> pyfloat list list" where
  "tensor_at r k = (case r of Inr c \<Rightarrow> (case c k of Some (Tensors [t]) \<Rightarrow> t | _ \<Rightarrow> []) | _ \<Rightarrow> [])"

definition m_of :: "LADR \<Rightarrow> pyfloat \<Rightarrow> pyfloat" where
  "m_of self u = scalar_at (evaluate self (Fin 0) (one_point u)) (''m'', [0])"

definition dm_of :: "LADR \<Rightarrow> pyfloat \<Rightarrow> pyfloat" where
  "dm_of self u = scalar_at (evaluate self (Fin 0) (one_point u)) (''dm'', [0, 0])"

definition f_of :: "LADR \<Rightarrow> pyfloat \<Rightarrow> pyfloat list" where
  "f_of self u = vector_at (evaluate self (Fin 0) (one_point u)) (''f'', [0])"

definition df_of :: "LADR \<Rightarrow> pyfloat \<Rightarrow> pyfloat list" where
  "df_of self u = vector_at (evaluate self (Fin 0) (one_point u)) (''df'', [0, 0])"

definition a_of :: "LADR \<Rightarrow> pyfloat \<Rightarrow> pyfloat list list" where
  "a_of self u = tensor_at (evaluate self (Fin 0) (one_point u)) (''a'', [0, 0])"

definition r_of :: "LADR \<Rightarrow> pyfloat \<Rightarrow> pyfloat" where
  "r_of self u = scalar_at (evaluate self (Fin 0) (one_point u)) (''r'', [0])"

definition dr_of :: "LADR \<Rightarrow> pyfloat \<Rightarrow> pyfloat" where
  "dr_of self u = scalar_at (evaluate self (Fin 0) (one_point u)) (''dr'', [0, 0])"

text \<open>
  The identities the derivatives are meant to satisfy between two solution values, read on
  the exact values of the doubles (\<open>exact_slope\<close>) and in Python's own arithmetic
  (\<open>float_slope\<close>). \<open>rounding_error s u\<close> is what rounding adds to the product \<open>s * u\<close>
  when it is written, for finite \<open>s\<close>, \<open>u\<close> and a finite result; two products are
  \<open>equally_rounded\<close> when that is the same for both, and \<open>exact_product\<close> says that the
  product is a double already, so that nothing is added.
\<close>

definition component :: "pyfloat list \<Rightarrow> nat \<Rightarrow> pyfloat" where
  "component v k = (if k < length v then v ! k else NaN)"

fun exact_slope :: "pyfloat \<Rightarrow> pyfloat \<Rightarrow> pyfloat \<Rightarrow> pyfloat \<Rightarrow> pyfloat \<Rightarrow> bool" where
  "exact_slope (Fin y1) (Fin y2) (Fin d) (Fin x1) (Fin x2) = (y1 - y2 = d * (x1 - x2))"
| "exact_slope _ _ _ _ _ = False"

definition float_slope :: "pyfloat \<Rightarrow> pyfloat \<Rightarrow> pyfloat \<Rightarrow> pyfloat \<Rightarrow> pyfloat \<Rightarrow> bool" where
  "float_slope y1 y2 d x1 x2 = feq (fsub y1 y2) (fmul d (fsub x1 x2))"

definition derivative_consistent ::
  "(pyfloat \<Rightarrow> pyfloat \<Rightarrow> pyfloat \<Rightarrow> pyfloat \<Rightarrow> pyfloat \<Rightarrow> bool) \<Rightarrow> LADR \<Rightarrow> pyfloat \<Rightarrow> pyfloat \<Rightarrow> bool"
  where
  "derivative_consistent slope self u1 u2 =
     (slope (m_of self u1) (m_of self u2) (dm_of self u1) u1 u2
      \<and> slope (component (f_of self u1) 0) (component (f_of self u2) 0)
               (component (df_of self u1) 0) u1 u2
      \<and> slope (component (f_of self u1) 1) (component (f_of self u2) 1)
               (component (df_of self u1) 1) u1 u2
      \<and> slope (r_of self u1) (r_of self u2) (dr_of self u1) u1 u2)"

definition vanishes_at_zero :: "LADR \<Rightarrow> bool" where
  "vanishes_at_zero self =
     (m_of self (Fin 0) = Fin 0 \<and> f_of self (Fin 0) = [Fin 0, Fin 0] \<and> r_of self (Fin 0) = Fin 0)"

fun exact_product :: "pyfloat \<Rightarrow> pyfloat \<Rightarrow> bool" where
  "exact_product (Fin x) (Fin y) = (rnd (x * y) = Fin (x * y))"
| "exact_product _ _ = False"

definition exactly_scaled :: "LADR \<Rightarrow> pyfloat \<Rightarrow> bool" where
  "exactly_scaled self u =
     (exact_product (M self) u \<and> exact_product (component (B self) 0) u
      \<and> exact_product (component (B self) 1) u \<and> exact_product (C self) u)"

fun is_finite :: "pyfloat \<Rightarrow> bool" where
  "is_finite (Fin q) = True"
| "is_finite _ = False"

definition finite_coefficients :: "LADR \<Rightarrow> bool" where
  "finite_coefficients self =
     (is_finite (M self) \<and> list_all is_finite (B self) \<and> is_finite (C self))"

fun error_of :: "pyfloat \<Rightarrow> pyfloat \<Rightarrow> pyfloat \<Rightarrow> rat option" where
  "error_of (Fin x) (Fin y) (Fin p) = Some (p - x * y)"
| "error_of _ _ _ = None"

definition rounding_error :: "pyfloat \<Rightarrow> pyfloat \<Rightarrow> rat option" where
  "rounding_error s u = error_of s u (fmul s u)"

definition equally_rounded :: "pyfloat \<Rightarrow> pyfloat \<Rightarrow> pyfloat \<Rightarrow> bool" where
  "equally_rounded s u1 u2 =
     (case (rounding_error s u1, rounding_error s u2) of
        (Some e1, Some e2) \<Rightarrow> e1 = e2
      | _ \<Rightarrow> False)"

definition equally_scaled :: "LADR \<Rightarrow> pyfloat \<Rightarrow> pyfloat \<Rightarrow> bool" where
  "equally_scaled self u1 u2 =
     (equally_rounded (M self) u1 u2 \<and> equally_rounded (component (B self) 0) u1 u2
      \<and> equally_rounded (component (B self) 1) u1 u2 \<and> equally_rounded (C self) u1 u2)"

section \<open>The notebook\<close>

subsection \<open>Boundary and initial conditions\<close>

text \<open>
  \<^verbatim>\<open>
  def getDBC(x,flag):
      if x[0] == 0.0 or x[1] == 0.0:
          return lambda x,t: 1.0
      elif x[0] == p.L[0] or x[1] == p.L[1]:
          return lambda x,t: 0.0
      else:
          return None
  \<close>
  \<^verbatim>\<open>or\<close> evaluates its right operand only when the left one is false, so the indexing
  errors are raised in that order. \<open>L\<close> is the value of \<^verbatim>\<open>p.L\<close> when the function is
  called.
\<close>

type_synonym bc = "pyfloat list \<Rightarrow> pyfloat \<Rightarrow> pyfloat"

definition getDBC :: "pyfloat list \<Rightarrow> pyfloat list \<Rightarrow> 'f \<Rightarrow> exn + bc option" where
  "getDBC L x flag =
     and_then (index x 0) (\<lambda>x0.
       if feq x0 (Fin 0) then Inr (Some (\<lambda>x t. Fin 1))
       else and_then (index x 1) (\<lambda>x1.
         if feq x1 (Fin 0) then Inr (Some (\<lambda>x t. Fin 1))
         else and_then (index x 0) (\<lambda>x0. and_then (index L 0) (\<lambda>L0.
           if feq x0 L0 then Inr (Some (\<lambda>x t. Fin 0))
           else and_then (index x 1) (\<lambda>x1. and_then (index L 1) (\<lambda>L1.
             if feq x1 L1 then Inr (Some (\<lambda>x t. Fin 0))
             else Inr None))))))"

text \<open>
  \<^verbatim>\<open>
  class IC:
      def uOfXT(self,x,t):
          if x[0] <= 0.0 or x[1] <= 0.0:
              return 1.0
          else:
              return 0.0
  \<close>
  The class has no attributes, so \<open>self\<close> is the unit value.
\<close>

definition uOfXT :: "unit \<Rightarrow> pyfloat list \<Rightarrow> pyfloat \<Rightarrow> exn + pyfloat" where
  "uOfXT self x t =
     and_then (index x 0) (\<lambda>x0.
       if fle x0 (Fin 0) then Inr (Fin 1)
       else and_then (index x 1) (\<lambda>x1.
         if fle x1 (Fin 0) then Inr (Fin 1)
         else Inr (Fin 0)))"

text \<open>
  The closed unit square \<open>[0,1] \<times> [0,1]\<close> and its boundary, for points with at least two
  coordinates (the framework passes three).
\<close>

definition in_unit_square :: "pyfloat list \<Rightarrow> bool" where
  "in_unit_square x =
     (2 \<le> length x \<and> fle (Fin 0) (x ! 0) \<and> fle (x ! 0) (Fin 1)
        \<and> fle (Fin 0) (x ! 1) \<and> fle (x ! 1) (Fin 1))"

definition on_boundary :: "pyfloat list \<Rightarrow> bool" where
  "on_boundary x =
     (in_unit_square x \<and>
      (feq (x ! 0) (Fin 0) \<or> feq (x ! 0) (Fin 1) \<or> feq (x ! 1) (Fin 0) \<or> feq (x ! 1) (Fin 1)))"

subsection \<open>Cells\<close>

text \<open>
  The attributes the code cells assign, of the modules \<open>p\<close>, \<open>n\<close> and \<open>so\<close> and of the
  notebook itself. \<open>solve_calls\<close> is not a variable of the notebook: it records the
  arguments of the calls of \<^verbatim>\<open>ns.calculateSolution\<close> made so far. Left out are the
  attributes that hold the callables (\<open>getDBC\<close> and \<open>uOfXT\<close> above, under
  \<^verbatim>\<open>p.dirichletConditions\<close> and \<^verbatim>\<open>p.initialConditions\<close>) and those that only select
  numerics of the framework (quadrature, stabilization, solvers).
\<close>

record notebook =
  p_name :: string
  p_nd :: int
  p_L :: "pyfloat list"
  p_T :: pyfloat
  p_coefficients :: LADR
  n_tnList :: "pyfloat list"
  so_name :: string
  so_tnList :: "pyfloat list"
  failed :: pyval
  solve_calls :: "string list"

datatype cell =
    Imports
  | Define_LADR
  | Physics
  | Numerics
  | Operator_Splitting
  | Initialize
  | Calculate
  | Plot
  | Show_Log

text \<open>
  The framework is outside the notebook. What a run sees of it is whether the framework
  code called by a cell raises, and what \<^verbatim>\<open>ns.calculateSolution\<close> does with the name it
  is given. An exception raised inside a cell other than the solve is taken at the cell's
  start.
\<close>

record framework =
  raises :: "cell \<Rightarrow> exn option"
  calculateSolution :: "string \<Rightarrow> exn + pyval"

text \<open>
  \<^verbatim>\<open>
  p.name = "ladr_2d"
  p.nd = 2; #Two dimensions
  p.L=(1.0,1.0);
  p.T=1.0
  p.coefficients=LADR(M=1.0,
                      A=[[0.001,0.0],
                         [0.0,0.001]],
                      B=[2.0,1.0],
                      C=0.0)
  \<close>
  The literal \<^verbatim>\<open>0.001\<close> is the double nearest to 1/1000.
\<close>

definition physics :: "notebook \<Rightarrow> notebook" where
  "physics s =
     s\<lparr>p_name := ''ladr_2d'', p_nd := 2, p_L := [Fin 1, Fin 1], p_T := Fin 1,
       p_coefficients :=
         LADR_init (Fin 1) [[rnd (1 / 1000), Fin 0], [Fin 0, rnd (1 / 1000)]] [Fin 2, Fin 1] (Fin 0)\<rparr>"

text \<open>\<^verbatim>\<open>n.tnList=[float(i)/40.0 for i in range(11)]\<close>\<close>

definition tnList_value :: "exn + pyfloat list" where
  "tnList_value =
     comprehension (\<lambda>i. and_then (float_of_int i) (\<lambda>x. fdiv x (Fin 40))) [0..10]"

definition numerics :: "notebook \<Rightarrow> exn + notebook" where
  "numerics s = and_then tnList_value (\<lambda>xs. Inr (s\<lparr>n_tnList := xs\<rparr>))"

text \<open>
  \<^verbatim>\<open>
  so.name = p.name
  so.tnList = n.tnList
  \<close>
\<close>

definition operator_splitting :: "notebook \<Rightarrow> notebook" where
  "operator_splitting s = s\<lparr>so_name := p_name s, so_tnList := n_tnList s\<rparr>"

text \<open>
  \<^verbatim>\<open>
  failed = ns.calculateSolution('ladr_run1')
  assert(not failed)
  \<close>
  The result of a cell is the state it leaves and the exception it raised, if any.
\<close>

definition calculate :: "framework \<Rightarrow> notebook \<Rightarrow> notebook \<times> exn option" where
  "calculate fw s =
     (let s1 = s\<lparr>solve_calls := solve_calls s @ [''ladr_run1'']\<rparr>
      in case calculateSolution fw ''ladr_run1'' of
           Inl e \<Rightarrow> (s1, Some e)
         | Inr v \<Rightarrow> (s1\<lparr>failed := v\<rparr>, if truthy v then Some AssertionError else None))"

fun effect :: "cell \<Rightarrow> notebook \<Rightarrow> notebook \<times> exn option" where
  "effect Physics s = (physics s, None)"
| "effect Numerics s = (case numerics s of Inl e \<Rightarrow> (s, Some e) | Inr s' \<Rightarrow> (s', None))"
| "effect Operator_Splitting s = (operator_splitting s, None)"
| "effect c s = (s, None)"

fun exec_cell :: "framework \<Rightarrow> cell \<Rightarrow> notebook \<Rightarrow> notebook \<times> exn option" where
  "exec_cell fw Calculate s = calculate fw s"
| "exec_cell fw c s = (case raises fw c of Some e \<Rightarrow> (s, Some e) | None \<Rightarrow> effect c s)"

text \<open>The cells run in order, and the run stops at the first exception.\<close>

fun run_cells :: "framework \<Rightarrow> cell list \<Rightarrow> notebook \<Rightarrow> notebook \<times> exn option" where
  "run_cells fw [] s = (s, None)"
| "run_cells fw (c # cs) s =
     (case exec_cell fw c s of
        (s', Some e) \<Rightarrow> (s', Some e)
      | (s', None) \<Rightarrow> run_cells fw cs s')"

definition notebook_cells :: "cell list" where
  "notebook_cells =
     [Imports, Define_LADR, Physics, Numerics, Operator_Splitting, Initialize, Calculate,
      Plot, Show_Log]"

definition configured :: "framework \<Rightarrow> bool" where
  "configured fw =
     list_all (\<lambda>c. raises fw c = None)
       [Imports, Define_LADR, Physics, Numerics, Operator_Splitting]"

definition reaches_solve :: "framework \<Rightarrow> bool" where
  "reaches_solve fw = (configured fw \<and> raises fw Initialize = None)"

text \<open>
  A fresh kernel: no solve has been called, and the attributes hold placeholders for the
  framework's defaults, which the cells overwrite before reading them. \<open>returning v\<close> is
  a framework in which nothing raises and the solve returns the flag \<open>v\<close>.
\<close>

definition fresh :: notebook where
  "fresh =
     \<lparr>p_name = [], p_nd = 0, p_L = [], p_T = Fin 0,
      p_coefficients = LADR_init (Fin 0) [] [] (Fin 0),
      n_tnList = [], so_name = [], so_tnList = [], failed = PyNone, solve_calls = []\<rparr>"

definition returning :: "pyval \<Rightarrow> framework" where
  "returning v = \<lparr>raises = (\<lambda>c. None), calculateSolution = (\<lambda>name. Inr v)\<rparr>"

section \<open>Evaluating float operations\<close>

text \<open>
  Rounding is evaluated on numerals by unfolding its definition and computing with the
  simplifier. The values below are the doubles Python prints as 0.1, 0.001, 0.025, ...
\<close>

lemma floor_rat_numeral: "\<lfloor>numeral a / numeral b :: rat\<rfloor> = numeral a div numeral b"
  using floor_divide_of_int_eq [of "numeral a" "numeral b", where ?'a = rat] by simp

lemmas rnd_unfold = rnd_def floor_log2_def round_half_even_def Let_def

lemmas rnd_numeral = pow2_def bit_length.simps floor_rat_numeral

lemma and_then_simps [simp]:
  "and_then (Inr v) f = f v" "and_then (Inl e) f = Inl e"
  by (simp_all add: and_then_def)

lemma double_tenth: "rnd (1 / 10) = Fin (3602879701896397 / 36028797018963968)"
  unfolding rnd_unfold by (simp add: rnd_numeral)

lemma double_thousandth: "rnd (1 / 1000) = Fin (1152921504606847 / 1152921504606846976)"
  unfolding rnd_unfold by (simp add: rnd_numeral)

lemma small_integers:
  "rnd 1 = Fin 1" "rnd 2 = Fin 2" "rnd 3 = Fin 3" "rnd 4 = Fin 4" "rnd 5 = Fin 5"
  "rnd 6 = Fin 6" "rnd 7 = Fin 7" "rnd 8 = Fin 8" "rnd 9 = Fin 9" "rnd 10 = Fin 10"
  unfolding rnd_unfold by (simp_all add: rnd_numeral)

lemma fortieths:
  "rnd (1 / 40) = Fin (3602879701896397 / 144115188075855872)"
  "rnd (2 / 40) = Fin (3602879701896397 / 72057594037927936)"
  "rnd (3 / 40) = Fin (5404319552844595 / 72057594037927936)"
  "rnd (4 / 40) = Fin (3602879701896397 / 36028797018963968)"
  "rnd (5 / 40) = Fin (1 / 8)"
  "rnd (6 / 40) = Fin (5404319552844595 / 36028797018963968)"
  "rnd (7 / 40) = Fin (3152519739159347 / 18014398509481984)"
  "rnd (8 / 40) = Fin (3602879701896397 / 18014398509481984)"
  "rnd (9 / 40) = Fin (8106479329266893 / 36028797018963968)"
  "rnd (10 / 40) = Fin (1 / 4)"
  unfolding rnd_unfold by (simp_all add: rnd_numeral)

lemma float_of_small_int:
  "float_of_int 0 = Inr (Fin 0)" "float_of_int 1 = Inr (Fin 1)" "float_of_int 2 = Inr (Fin 2)"
  "float_of_int 3 = Inr (Fin 3)" "float_of_int 4 = Inr (Fin 4)" "float_of_int 5 = Inr (Fin 5)"
  "float_of_int 6 = Inr (Fin 6)" "float_of_int 7 = Inr (Fin 7)" "float_of_int 8 = Inr (Fin 8)"
  "float_of_int 9 = Inr (Fin 9)" "float_of_int 10 = Inr (Fin 10)"
  by (simp_all add: float_of_int_def small_integers) (simp add: rnd_def)

lemma range_11: "[0..10] = [0, 1, 2, 3, 4, 5, 6, 7, 8, 9, 10::int]"
  by (simp add: upto.simps)

lemma fdiv_40: "fdiv (Fin a) (Fin 40) = Inr (rnd (a / 40))"
  by simp

lemma step_times:
  "and_then (float_of_int 0) (\<lambda>x. fdiv x (Fin 40)) = Inr (Fin 0)"
  "and_then (float_of_int 1) (\<lambda>x. fdiv x (Fin 40)) = Inr (Fin (3602879701896397 / 144115188075855872))"
  "and_then (float_of_int 2) (\<lambda>x. fdiv x (Fin 40)) = Inr (Fin (3602879701896397 / 72057594037927936))"
  "and_then (float_of_int 3) (\<lambda>x. fdiv x (Fin 40)) = Inr (Fin (5404319552844595 / 72057594037927936))"
  "and_then (float_of_int 4) (\<lambda>x. fdiv x (Fin 40)) = Inr (Fin (3602879701896397 / 36028797018963968))"
  "and_then (float_of_int 5) (\<lambda>x. fdiv x (Fin 40)) = Inr (Fin (1 / 8))"
  "and_then (float_of_int 6) (\<lambda>x. fdiv x (Fin 40)) = Inr (Fin (5404319552844595 / 36028797018963968))"
  "and_then (float_of_int 7) (\<lambda>x. fdiv x (Fin 40)) = Inr (Fin (3152519739159347 / 18014398509481984))"
  "and_then (float_of_int 8) (\<lambda>x. fdiv x (Fin 40)) = Inr (Fin (3602879701896397 / 18014398509481984))"
  "and_then (float_of_int 9) (\<lambda>x. fdiv x (Fin 40)) = Inr (Fin (8106479329266893 / 36028797018963968))"
  "and_then (float_of_int 10) (\<lambda>x. fdiv x (Fin 40)) = Inr (Fin (1 / 4))"
  unfolding float_of_small_int and_then_simps fdiv_40 fortieths
  by (simp_all add: rnd_def)

lemma nearest_fortieths:
  "map (\<lambda>i. rnd (of_int i / 40)) [0..10] =
     [Fin 0,
      Fin (3602879701896397 / 144115188075855872),
      Fin (3602879701896397 / 72057594037927936),
      Fin (5404319552844595 / 72057594037927936),
      Fin (3602879701896397 / 36028797018963968),
      Fin (1 / 8),
      Fin (5404319552844595 / 36028797018963968),
      Fin (3152519739159347 / 18014398509481984),
      Fin (3602879701896397 / 18014398509481984),
      Fin (8106479329266893 / 36028797018963968),
      Fin (1 / 4)]"
  unfolding range_11 list.map of_int_numeral of_int_0 of_int_1 fortieths
  by (simp add: rnd_def)

lemma tnList_nearest: "tnList_value = Inr (map (\<lambda>i. rnd (of_int i / 40)) [0..10])"
  unfolding nearest_fortieths
  unfolding tnList_value_def range_11 comprehension.simps step_times and_then_simps
  by (rule refl)

lemma tenth_times_three:
  "fmul (Fin (3602879701896397 / 36028797018963968)) (Fin 3)
     = Fin (1351079888211149 / 4503599627370496)"
  unfolding fmul.simps rnd_unfold by (simp add: rnd_numeral)

lemma tenth_times_one:
  "fmul (Fin (3602879701896397 / 36028797018963968)) (Fin 1)
     = Fin (3602879701896397 / 36028797018963968)"
  unfolding fmul.simps rnd_unfold by (simp add: rnd_numeral)

lemma tenth_times_two:
  "fmul (Fin (3602879701896397 / 36028797018963968)) (Fin 2)
     = Fin (3602879701896397 / 18014398509481984)"
  unfolding fmul.simps rnd_unfold by (simp add: rnd_numeral)

lemma tenth_times_seven:
  "fmul (Fin (3602879701896397 / 36028797018963968)) (Fin 7)
     = Fin (6305039478318695 / 9007199254740992)"
  unfolding fmul.simps rnd_unfold by (simp add: rnd_numeral)

lemma small_products:
  "fmul (Fin 2) (Fin 7) = Fin 14" "fmul (Fin 1) (Fin 7) = Fin 7" "fmul (Fin 0) (Fin 7) = Fin 0"
  "fmul (Fin 2) (Fin 3) = Fin 6" "fmul (Fin 1) (Fin 3) = Fin 3" "fmul (Fin 0) (Fin 3) = Fin 0"
  unfolding fmul.simps rnd_unfold by (simp_all add: rnd_numeral)

lemma three_minus_one: "fsub (Fin 3) (Fin 1) = Fin 2"
  unfolding fsub.simps rnd_unfold by (simp add: rnd_numeral)

lemma written_difference:
  "fsub (Fin (1351079888211149 / 4503599627370496)) (Fin (3602879701896397 / 36028797018963968))
     = Fin (7205759403792795 / 36028797018963968)"
  unfolding fsub.simps rnd_unfold by (simp add: rnd_numeral)

section \<open>What \<open>evaluate\<close> writes\<close>

lemma row2: "length v = 2 \<Longrightarrow> \<exists>a b. v = [a, b]"
  by (cases v; cases "tl v") auto

lemma rows_written:
  assumes "length vs = length us" and "list_all (\<lambda>v. length v = 2) vs"
  shows "map2 (\<lambda>v y. v[Suc 0 := y]) (map2 (\<lambda>v y. v[0 := y]) vs (map f us)) (map g us)
           = map (\<lambda>x. [f x, g x]) us"
  using assms by (induction vs us rule: list_induct2) (auto dest: row2)

lemma rows_filled:
  assumes "list_all (\<lambda>v. length v = 2) vs"
  shows "map ((\<lambda>v. v[Suc 0 := q]) \<circ> (\<lambda>v. v[0 := p])) vs = map (\<lambda>v. [p, q]) vs"
  using assms by (induction vs) (auto dest: row2)

lemma square_cases: "square t \<Longrightarrow> \<exists>a b c d. t = [[a, b], [c, d]]"
  unfolding square_def by (auto dest!: row2)

lemma diagonal_filled:
  assumes "list_all square ts"
  shows "map ((\<lambda>t. t[Suc 0 := (t ! Suc 0)[Suc 0 := q]]) \<circ> (\<lambda>t. t[0 := (t ! 0)[0 := p]])) ts
           = map (\<lambda>t. [[p, t ! 0 ! 1], [t ! 1 ! 0, q]]) ts"
  using assms by (induction ts) (auto dest: square_cases)

lemma allocatedE:
  assumes "allocated c us"
  obtains ms dms fs dfs ts rs drs where
    "c (''u'', [0]) = Some (Scalars us)"
    "c (''m'', [0]) = Some (Scalars ms)" "length ms = length us"
    "c (''dm'', [0, 0]) = Some (Scalars dms)" "length dms = length us"
    "c (''f'', [0]) = Some (Vectors fs)" "length fs = length us" "list_all (\<lambda>v. length v = 2) fs"
    "c (''df'', [0, 0]) = Some (Vectors dfs)" "length dfs = length us"
    "list_all (\<lambda>v. length v = 2) dfs"
    "c (''a'', [0, 0]) = Some (Tensors ts)" "length ts = length us" "list_all square ts"
    "c (''r'', [0]) = Some (Scalars rs)" "length rs = length us"
    "c (''dr'', [0, 0]) = Some (Scalars drs)" "length drs = length us"
  using assms unfolding allocated_def scalars_at_def vectors_at_def tensors_at_def
  by (auto split: option.splits ndarray.splits)

lemma two_dimensionalE:
  assumes "two_dimensional self"
  obtains b0 b1 a00 a01 a10 a11 where
    "B self = [b0, b1]" "A self = [[a00, a01], [a10, a11]]"
proof -
  from assms have "length (B self) = 2" and "square (A self)"
    by (simp_all add: two_dimensional_def)
  then show ?thesis
    using that by (auto dest!: row2 square_cases)
qed

lemma assign_component_rows:
  assumes "list_all (\<lambda>v. length v = 2) vs" and "length ys = length vs" and "k < 2"
  shows "assign_component (Vectors vs) k (Scalars ys) = Inr (Vectors (map2 (\<lambda>v y. v[k := y]) vs ys))"
  using assms by (auto simp: list_all_iff)

lemma rows_kept:
  assumes "list_all (\<lambda>v. length v = 2) vs"
  shows "list_all (\<lambda>v. length v = 2) (map2 (\<lambda>v y. v[k := y]) vs ys)"
  using assms by (auto simp: list_all_iff dest: set_zip_leftD)

lemma fill_component_rows:
  assumes "list_all (\<lambda>v. length v = 2) vs" and "k < 2"
  shows "fill_component (Vectors vs) k s = Inr (Vectors (map (\<lambda>v. v[k := s]) vs))"
  using assms by (auto simp: list_all_iff)

lemma rows_kept_fill:
  assumes "list_all (\<lambda>v. length v = 2) vs"
  shows "list_all (\<lambda>v. length v = 2) (map (\<lambda>v. v[k := s]) vs)"
  using assms by (auto simp: list_all_iff)

lemma fill_entry_squares:
  assumes "list_all square ts" and "i < 2" and "j < 2"
  shows "fill_entry (Tensors ts) i j s = Inr (Tensors (map (\<lambda>t. t[i := (t ! i)[j := s]]) ts))"
  using assms by (auto simp: list_all_iff square_def)

lemma squares_kept:
  assumes "list_all square ts" and "i < 2"
  shows "list_all square (map (\<lambda>t. t[i := (t ! i)[j := s]]) ts)"
  using assms by (auto simp: list_all_iff square_def dest!: set_update_subset_insert [THEN subsetD])

lemma evaluate_allocated:
  assumes "allocated c us" and "two_dimensional self"
    and "c (''a'', [0, 0]) = Some (Tensors ts)"
  shows "evaluate self t c =
           Inr (c((''m'', [0]) \<mapsto> Scalars (map (fmul (M self)) us),
                  (''dm'', [0, 0]) \<mapsto> Scalars (map (\<lambda>x. M self) us),
                  (''f'', [0]) \<mapsto> Vectors (map (\<lambda>x. [fmul (B self ! 0) x, fmul (B self ! 1) x]) us),
                  (''df'', [0, 0]) \<mapsto> Vectors (map (\<lambda>x. [B self ! 0, B self ! 1]) us),
                  (''a'', [0, 0]) \<mapsto>
                     Tensors (map (\<lambda>t. [[A self ! 0 ! 0, t ! 0 ! 1], [t ! 1 ! 0, A self ! 1 ! 1]]) ts),
                  (''r'', [0]) \<mapsto> Scalars (map (fmul (C self)) us),
                  (''dr'', [0, 0]) \<mapsto> Scalars (map (\<lambda>x. C self) us)))"
proof -
  from assms(1) obtain ms dms fs dfs ts' rs drs where c:
    "c (''u'', [0]) = Some (Scalars us)"
    "c (''m'', [0]) = Some (Scalars ms)" "length ms = length us"
    "c (''dm'', [0, 0]) = Some (Scalars dms)" "length dms = length us"
    "c (''f'', [0]) = Some (Vectors fs)" "length fs = length us" "list_all (\<lambda>v. length v = 2) fs"
    "c (''df'', [0, 0]) = Some (Vectors dfs)" "length dfs = length us"
    "list_all (\<lambda>v. length v = 2) dfs"
    "c (''a'', [0, 0]) = Some (Tensors ts')" "length ts' = length us" "list_all square ts'"
    "c (''r'', [0]) = Some (Scalars rs)" "length rs = length us"
    "c (''dr'', [0, 0]) = Some (Scalars drs)" "length drs = length us"
    by (rule allocatedE)
  from assms(3) c have ts: "ts' = ts"
    by simp
  from assms(2) obtain b0 b1 a00 a01 a10 a11 where
    l: "B self = [b0, b1]" "A self = [[a00, a01], [a10, a11]]"
    by (rule two_dimensionalE)
  note shapes = assign_component_rows rows_kept fill_component_rows rows_kept_fill
    fill_entry_squares squares_kept
  have dms: "map (\<lambda>x. M self) dms = map (\<lambda>x. M self) us"
    and drs: "map (\<lambda>x. C self) drs = map (\<lambda>x. C self) us"
    and dfs: "map (\<lambda>x. [b0, b1]) dfs = map (\<lambda>x. [b0, b1]) us"
    using c by (simp_all add: map_replicate_const)
  show ?thesis
    unfolding evaluate_def
    apply (simp add: setitem_def lookup_def index_def assign_all_def c l shapes
        del: assign_component.simps fill_component.simps fill_entry.simps)
    apply (simp add: rows_written rows_filled diagonal_filled c dms drs dfs ts [symmetric])
    done
qed

lemma allocated_one_point: "allocated (one_point u) [u]"
  by (simp add: allocated_def one_point_def scalars_at_def vectors_at_def tensors_at_def
      square_def)

lemma evaluate_one_point:
  assumes "two_dimensional self"
  shows "evaluate self t (one_point u) =
           Inr ((one_point u)((''m'', [0]) \<mapsto> Scalars [fmul (M self) u],
                  (''dm'', [0, 0]) \<mapsto> Scalars [M self],
                  (''f'', [0]) \<mapsto> Vectors [[fmul (B self ! 0) u, fmul (B self ! 1) u]],
                  (''df'', [0, 0]) \<mapsto> Vectors [[B self ! 0, B self ! 1]],
                  (''a'', [0, 0]) \<mapsto> Tensors [[[A self ! 0 ! 0, Fin 0], [Fin 0, A self ! 1 ! 1]]],
                  (''r'', [0]) \<mapsto> Scalars [fmul (C self) u],
                  (''dr'', [0, 0]) \<mapsto> Scalars [C self]))"
proof -
  have a: "one_point u (''a'', [0, 0]) = Some (Tensors [[[Fin 0, Fin 0], [Fin 0, Fin 0]]])"
    by (simp add: one_point_def)
  show ?thesis
    using evaluate_allocated [OF allocated_one_point assms a, of t] by simp
qed

lemma written_at_one_point:
  assumes "two_dimensional self"
  shows "m_of self u = fmul (M self) u" and "dm_of self u = M self"
    and "f_of self u = [fmul (B self ! 0) u, fmul (B self ! 1) u]"
    and "df_of self u = [B self ! 0, B self ! 1]"
    and "a_of self u = [[A self ! 0 ! 0, Fin 0], [Fin 0, A self ! 1 ! 1]]"
    and "r_of self u = fmul (C self) u" and "dr_of self u = C self"
  by (simp_all add: m_of_def dm_of_def f_of_def df_of_def a_of_def r_of_def dr_of_def
      scalar_at_def vector_at_def tensor_at_def evaluate_one_point [OF assms])

lemma two_dimensional_init:
  "two_dimensional (LADR_init m a b c) \<longleftrightarrow> length b = 2 \<and> square a"
  by (simp add: two_dimensional_def LADR_init_def)

lemma LADR_init_fields [simp]:
  "M (LADR_init m a b c) = m" "A (LADR_init m a b c) = a"
  "B (LADR_init m a b c) = b" "C (LADR_init m a b c) = c"
  by (simp_all add: LADR_init_def)

text \<open>
  C1. For every time \<open>t\<close> and every store \<open>c\<close> with a solution array \<open>u = c[('u',0)]\<close>,
  \<open>evaluate\<close> writes the coefficients as linear functions of \<open>u\<close>: the mass \<open>M*u\<close> with
  derivative \<open>M\<close>, the advection \<open>(B[0]*u, B[1]*u)\<close> with derivative \<open>(B[0], B[1])\<close> and
  the reaction \<open>C*u\<close> with derivative \<open>C\<close>, for the \<open>M\<close>, \<open>B\<close>, \<open>C\<close> given to the
  constructor. The products are Python's, entry by entry, and \<open>u\<close> is left as it was.
\<close>

theorem evaluate_linear_coefficients:
  assumes "allocated c us" and "two_dimensional (LADR_init m a b r)"
  shows "\<exists>c'. evaluate (LADR_init m a b r) t c = Inr c'
           \<and> c' (''u'', [0]) = Some (Scalars us)
           \<and> c' (''m'', [0]) = Some (Scalars (map (fmul m) us))
           \<and> c' (''dm'', [0, 0]) = Some (Scalars (replicate (length us) m))
           \<and> c' (''f'', [0]) = Some (Vectors (map (\<lambda>u. [fmul (b ! 0) u, fmul (b ! 1) u]) us))
           \<and> c' (''df'', [0, 0]) = Some (Vectors (replicate (length us) [b ! 0, b ! 1]))
           \<and> c' (''r'', [0]) = Some (Scalars (map (fmul r) us))
           \<and> c' (''dr'', [0, 0]) = Some (Scalars (replicate (length us) r))"
proof -
  from assms(1) obtain ts where ts: "c (''a'', [0, 0]) = Some (Tensors ts)"
    by (auto elim: allocatedE)
  from assms(1) have u: "c (''u'', [0]) = Some (Scalars us)"
    by (simp add: allocated_def)
  show ?thesis
    unfolding evaluate_allocated [OF assms ts]
    by (simp add: u map_replicate_const)
qed

theorem evaluate_linear_coefficients_witness:
  "allocated (one_point (Fin 3)) [Fin 3]
   \<and> two_dimensional (LADR_init (Fin 1) [[Fin 5, Fin 0], [Fin 0, Fin 5]] [Fin 2, Fin 1] (Fin 0))
   \<and> (\<exists>c'. evaluate (LADR_init (Fin 1) [[Fin 5, Fin 0], [Fin 0, Fin 5]] [Fin 2, Fin 1] (Fin 0))
              (Fin 0) (one_point (Fin 3)) = Inr c'
         \<and> c' (''m'', [0]) = Some (Scalars [fmul (Fin 1) (Fin 3)])
         \<and> c' (''dm'', [0, 0]) = Some (Scalars [Fin 1])
         \<and> c' (''f'', [0]) = Some (Vectors [[fmul (Fin 2) (Fin 3), fmul (Fin 1) (Fin 3)]])
         \<and> c' (''df'', [0, 0]) = Some (Vectors [[Fin 2, Fin 1]])
         \<and> c' (''r'', [0]) = Some (Scalars [fmul (Fin 0) (Fin 3)])
         \<and> c' (''dr'', [0, 0]) = Some (Scalars [Fin 0]))"
proof -
  have al: "allocated (one_point (Fin 3)) [Fin 3]"
    by (rule allocated_one_point)
  have td: "two_dimensional (LADR_init (Fin 1) [[Fin 5, Fin 0], [Fin 0, Fin 5]] [Fin 2, Fin 1] (Fin 0))"
    by (simp add: two_dimensional_init square_def)
  from evaluate_linear_coefficients [OF al td, of "Fin 0"] al td show ?thesis
    by (auto simp del: fmul.simps)
qed

text \<open>
  C2. \<open>evaluate\<close> is to set the diffusion tensor \<open>c[('a',0,0)]\<close> to the whole matrix \<open>A\<close>.
  It writes the two diagonal entries only: with \<open>A = [[1, 2], [3, 4]]\<close> and a tensor array
  holding zeros, the array holds \<open>[[1, 0], [0, 4]]\<close> afterwards.
\<close>

theorem diffusion_off_diagonal_dropped:
  "a_of (LADR_init (Fin 1) [[Fin 1, Fin 2], [Fin 3, Fin 4]] [Fin 2, Fin 1] (Fin 0)) (Fin 0)
     = [[Fin 1, Fin 0], [Fin 0, Fin 4]]
   \<and> a_of (LADR_init (Fin 1) [[Fin 1, Fin 2], [Fin 3, Fin 4]] [Fin 2, Fin 1] (Fin 0)) (Fin 0)
     \<noteq> A (LADR_init (Fin 1) [[Fin 1, Fin 2], [Fin 3, Fin 4]] [Fin 2, Fin 1] (Fin 0))"
proof -
  have "two_dimensional (LADR_init (Fin 1) [[Fin 1, Fin 2], [Fin 3, Fin 4]] [Fin 2, Fin 1] (Fin 0))"
    by (simp add: two_dimensional_init square_def)
  then show ?thesis
    by (simp add: written_at_one_point)
qed

lemma exact_productE:
  assumes "exact_product s u"
  obtains x y where "s = Fin x" and "u = Fin y" and "fmul s u = Fin (x * y)"
  using assms by (cases s; cases u) auto

lemma exact_product_error:
  assumes "exact_product s u"
  shows "rounding_error s u = Some 0"
proof -
  from assms obtain x y where "s = Fin x" and "u = Fin y" and "fmul s u = Fin (x * y)"
    by (rule exact_productE)
  then show ?thesis
    unfolding rounding_error_def by simp
qed

lemma error_of_Some:
  "error_of s u p = Some e \<longleftrightarrow> (\<exists>x y q. s = Fin x \<and> u = Fin y \<and> p = Fin q \<and> e = q - x * y)"
  by (cases s; cases u; cases p) auto

lemma error_of_None:
  "error_of s u p = None \<longleftrightarrow> \<not> (is_finite s \<and> is_finite u \<and> is_finite p)"
  by (cases s; cases u; cases p) auto

lemma exact_slope_iff:
  "exact_slope (fmul s u1) (fmul s u2) s u1 u2 \<longleftrightarrow> equally_rounded s u1 u2"
proof (cases "is_finite s \<and> is_finite u1 \<and> is_finite u2
    \<and> is_finite (fmul s u1) \<and> is_finite (fmul s u2)")
  case True
  then obtain x y1 y2 q1 q2 where v: "s = Fin x" "u1 = Fin y1" "u2 = Fin y2"
    and q: "fmul s u1 = Fin q1" "fmul s u2 = Fin q2"
    by (cases s; cases u1; cases u2; cases "fmul s u1"; cases "fmul s u2") auto
  have "q1 - q2 = x * (y1 - y2) \<longleftrightarrow> q1 - x * y1 = q2 - x * y2"
    by (auto simp: algebra_simps)
  then show ?thesis
    unfolding equally_rounded_def rounding_error_def q unfolding v by simp
next
  case False
  then have "\<not> exact_slope (fmul s u1) (fmul s u2) s u1 u2"
    by (cases s; cases u1; cases u2; cases "fmul s u1"; cases "fmul s u2") auto
  moreover from False
  have "error_of s u1 (fmul s u1) = None \<or> error_of s u2 (fmul s u2) = None"
    by (auto simp: error_of_None)
  then have "\<not> equally_rounded s u1 u2"
    unfolding equally_rounded_def rounding_error_def by (auto split: option.splits)
  ultimately show ?thesis
    by blast
qed

lemma fmul_zero_iff: "fmul s (Fin 0) = Fin 0 \<longleftrightarrow> is_finite s"
  by (cases s) (simp_all add: rnd_def)

text \<open>
  C8, as the code has it. For a constructor given a 2 by 2 matrix \<open>A\<close> and a two-entry
  \<open>B\<close>, and any \<open>M\<close>, \<open>C\<close> and solution values \<open>u1\<close>, \<open>u2\<close>: the identities
  \<open>m(u1) - m(u2) = dm * (u1 - u2)\<close>, \<open>f_k(u1) - f_k(u2) = df_k * (u1 - u2)\<close> for
  \<open>k = 0, 1\<close> and \<open>r(u1) - r(u2) = dr * (u1 - u2)\<close> hold between the numbers written
  if and only if, for each of \<open>M\<close>, \<open>B[0]\<close>, \<open>B[1]\<close>, \<open>C\<close>, its products with \<open>u1\<close> and
  with \<open>u2\<close> are finite and rounded by the same amount; so they hold whenever all these
  products are exact doubles. And \<open>m(0) = 0\<close>, \<open>f(0) = (0, 0)\<close>, \<open>r(0) = 0\<close> hold if and
  only if \<open>M\<close>, \<open>B[0]\<close>, \<open>B[1]\<close>, \<open>C\<close> are finite.
\<close>

theorem derivative_consistency_iff:
  assumes "two_dimensional self"
  shows "(derivative_consistent exact_slope self u1 u2 \<longleftrightarrow> equally_scaled self u1 u2)
         \<and> (exactly_scaled self u1 \<and> exactly_scaled self u2 \<longrightarrow>
              derivative_consistent exact_slope self u1 u2)
         \<and> (vanishes_at_zero self \<longleftrightarrow> finite_coefficients self)"
proof -
  from assms obtain b0 b1 where b: "B self = [b0, b1]"
    by (auto simp: two_dimensional_def dest: row2)
  note w = written_at_one_point [OF assms]
  have iff: "derivative_consistent exact_slope self u1 u2 \<longleftrightarrow> equally_scaled self u1 u2"
    for u1 u2
    by (simp add: derivative_consistent_def equally_scaled_def w component_def b
        exact_slope_iff)
  have "equally_scaled self u1 u2" if "exactly_scaled self u1" and "exactly_scaled self u2"
    using that
    by (simp add: equally_scaled_def exactly_scaled_def equally_rounded_def
        exact_product_error)
  moreover have "vanishes_at_zero self \<longleftrightarrow> finite_coefficients self"
    by (simp add: vanishes_at_zero_def finite_coefficients_def w b fmul_zero_iff)
  ultimately show ?thesis
    using iff by blast
qed

text \<open>
  C8 as stated fails where the two products are rounded differently: with \<open>M = 0.1\<close>,
  \<open>u1 = 3.0\<close> and \<open>u2 = 1.0\<close> the mass written is \<open>0.30000000000000004\<close> and \<open>0.1\<close>, and
  their difference is not \<open>0.1 * 2\<close>, neither exactly nor in Python's arithmetic. And it
  fails at zero for a coefficient that is not finite: with \<open>M = float('inf')\<close> the mass
  written for \<open>u = 0.0\<close> is \<open>nan\<close>.
\<close>

theorem derivative_consistency_counterexample:
  "\<not> derivative_consistent exact_slope
       (LADR_init (rnd (1 / 10)) [[Fin 1, Fin 0], [Fin 0, Fin 1]] [Fin 2, Fin 1] (Fin 0))
       (Fin 3) (Fin 1)
   \<and> \<not> derivative_consistent float_slope
       (LADR_init (rnd (1 / 10)) [[Fin 1, Fin 0], [Fin 0, Fin 1]] [Fin 2, Fin 1] (Fin 0))
       (Fin 3) (Fin 1)
   \<and> m_of (LADR_init PInf [[Fin 1, Fin 0], [Fin 0, Fin 1]] [Fin 2, Fin 1] (Fin 0)) (Fin 0) = NaN
   \<and> \<not> vanishes_at_zero
       (LADR_init PInf [[Fin 1, Fin 0], [Fin 0, Fin 1]] [Fin 2, Fin 1] (Fin 0))"
proof -
  let ?l = "LADR_init (Fin (3602879701896397 / 36028797018963968))
              [[Fin 1, Fin 0], [Fin 0, Fin 1]] [Fin 2, Fin 1] (Fin 0)"
  have td: "two_dimensional ?l"
    by (simp add: two_dimensional_init square_def)
  note w = written_at_one_point [OF td]
  have m3: "m_of ?l (Fin 3) = Fin (1351079888211149 / 4503599627370496)"
    and m1: "m_of ?l (Fin 1) = Fin (3602879701896397 / 36028797018963968)"
    and dm: "dm_of ?l (Fin 3) = Fin (3602879701896397 / 36028797018963968)"
    unfolding w LADR_init_fields
    by (rule tenth_times_three tenth_times_one refl)+
  have "\<not> exact_slope (m_of ?l (Fin 3)) (m_of ?l (Fin 1)) (dm_of ?l (Fin 3)) (Fin 3) (Fin 1)"
    unfolding m3 m1 dm by simp
  moreover
  have "\<not> float_slope (m_of ?l (Fin 3)) (m_of ?l (Fin 1)) (dm_of ?l (Fin 3)) (Fin 3) (Fin 1)"
    unfolding m3 m1 dm float_slope_def written_difference three_minus_one tenth_times_two
    by simp
  moreover
  have "two_dimensional (LADR_init PInf [[Fin 1, Fin 0], [Fin 0, Fin 1]] [Fin 2, Fin 1] (Fin 0))"
    by (simp add: two_dimensional_init square_def)
  then have "m_of (LADR_init PInf [[Fin 1, Fin 0], [Fin 0, Fin 1]] [Fin 2, Fin 1] (Fin 0)) (Fin 0)
      = NaN"
    by (simp add: written_at_one_point)
  ultimately show ?thesis
    unfolding double_tenth by (simp add: derivative_consistent_def vanishes_at_zero_def)
qed

theorem derivative_consistency_iff_witness:
  "two_dimensional
     (LADR_init (rnd (1 / 10)) [[Fin 1, Fin 0], [Fin 0, Fin 1]] [Fin 2, Fin 1] (Fin 0))
   \<and> equally_scaled
     (LADR_init (rnd (1 / 10)) [[Fin 1, Fin 0], [Fin 0, Fin 1]] [Fin 2, Fin 1] (Fin 0))
     (Fin 7) (Fin 3)
   \<and> \<not> exactly_scaled
     (LADR_init (rnd (1 / 10)) [[Fin 1, Fin 0], [Fin 0, Fin 1]] [Fin 2, Fin 1] (Fin 0))
     (Fin 7)
   \<and> derivative_consistent exact_slope
     (LADR_init (rnd (1 / 10)) [[Fin 1, Fin 0], [Fin 0, Fin 1]] [Fin 2, Fin 1] (Fin 0))
     (Fin 7) (Fin 3)
   \<and> two_dimensional
     (LADR_init (Fin 1) [[rnd (1 / 1000), Fin 0], [Fin 0, rnd (1 / 1000)]] [Fin 2, Fin 1] (Fin 0))
   \<and> exactly_scaled
     (LADR_init (Fin 1) [[rnd (1 / 1000), Fin 0], [Fin 0, rnd (1 / 1000)]] [Fin 2, Fin 1] (Fin 0))
     (Fin (3 / 4))
   \<and> exactly_scaled
     (LADR_init (Fin 1) [[rnd (1 / 1000), Fin 0], [Fin 0, rnd (1 / 1000)]] [Fin 2, Fin 1] (Fin 0))
     (Fin (1 / 4))
   \<and> derivative_consistent exact_slope
     (LADR_init (Fin 1) [[rnd (1 / 1000), Fin 0], [Fin 0, rnd (1 / 1000)]] [Fin 2, Fin 1] (Fin 0))
     (Fin (3 / 4)) (Fin (1 / 4))
   \<and> finite_coefficients
     (LADR_init (Fin 1) [[rnd (1 / 1000), Fin 0], [Fin 0, rnd (1 / 1000)]] [Fin 2, Fin 1] (Fin 0))
   \<and> vanishes_at_zero
     (LADR_init (Fin 1) [[rnd (1 / 1000), Fin 0], [Fin 0, rnd (1 / 1000)]] [Fin 2, Fin 1] (Fin 0))"
proof -
  let ?k = "LADR_init (rnd (1 / 10)) [[Fin 1, Fin 0], [Fin 0, Fin 1]] [Fin 2, Fin 1] (Fin 0)"
  let ?l = "LADR_init (Fin 1) [[rnd (1 / 1000), Fin 0], [Fin 0, rnd (1 / 1000)]] [Fin 2, Fin 1] (Fin 0)"
  have tk: "two_dimensional ?k"
    by (simp add: two_dimensional_init square_def)
  have r7: "rounding_error (Fin (3602879701896397 / 36028797018963968)) (Fin 7)
      = Some (1 / 36028797018963968)"
    and r3: "rounding_error (Fin (3602879701896397 / 36028797018963968)) (Fin 3)
      = Some (1 / 36028797018963968)"
    unfolding rounding_error_def tenth_times_seven tenth_times_three by simp_all
  have s: "rounding_error (Fin 2) (Fin 7) = Some 0" "rounding_error (Fin 1) (Fin 7) = Some 0"
    "rounding_error (Fin 0) (Fin 7) = Some 0" "rounding_error (Fin 2) (Fin 3) = Some 0"
    "rounding_error (Fin 1) (Fin 3) = Some 0" "rounding_error (Fin 0) (Fin 3) = Some 0"
    unfolding rounding_error_def small_products by simp_all
  have ek: "equally_scaled ?k (Fin 7) (Fin 3)"
    unfolding equally_scaled_def equally_rounded_def LADR_init_fields double_tenth
    by (simp add: component_def r7 r3 s)
  have "\<not> exact_product (Fin (3602879701896397 / 36028797018963968)) (Fin 7)"
    using tenth_times_seven by simp
  then have nk: "\<not> exactly_scaled ?k (Fin 7)"
    unfolding exactly_scaled_def LADR_init_fields double_tenth by simp
  have tl: "two_dimensional ?l"
    by (simp add: two_dimensional_init square_def)
  have p: "rnd (3 / 4) = Fin (3 / 4)" "rnd (3 / 2) = Fin (3 / 2)"
    "rnd (1 / 4) = Fin (1 / 4)" "rnd (1 / 2) = Fin (1 / 2)"
    unfolding rnd_unfold by (simp_all add: rnd_numeral)
  have e1: "exactly_scaled ?l (Fin (3 / 4))" and e2: "exactly_scaled ?l (Fin (1 / 4))"
    by (simp_all add: exactly_scaled_def component_def p) (simp_all add: rnd_def)
  have fc: "finite_coefficients ?l"
    by (simp add: finite_coefficients_def)
  from derivative_consistency_iff [OF tk, of "Fin 7" "Fin 3"]
    derivative_consistency_iff [OF tl, of "Fin (3 / 4)" "Fin (1 / 4)"]
    tk ek nk tl e1 e2 fc
  show ?thesis
    by blast
qed

section \<open>Boundary and initial data\<close>

lemma index_two:
  assumes "2 \<le> length x"
  shows "index x 0 = Inr (x ! 0)" and "index x 1 = Inr (x ! 1)"
  using assms by (auto simp: index_def)

lemma p_L_physics: "p_L (physics s) = [Fin 1, Fin 1]"
  by (simp add: physics_def)

lemma getDBC_two:
  assumes "2 \<le> length x"
  shows "getDBC [Fin 1, Fin 1] x flag =
           Inr (if feq (x ! 0) (Fin 0) \<or> feq (x ! 1) (Fin 0) then Some (\<lambda>y t. Fin 1)
                else if feq (x ! 0) (Fin 1) \<or> feq (x ! 1) (Fin 1) then Some (\<lambda>y t. Fin 0)
                else None)"
proof -
  have L: "index [Fin 1, Fin 1] 0 = Inr (Fin 1)" "index [Fin 1, Fin 1] 1 = Inr (Fin 1)"
    by (simp_all add: index_def)
  show ?thesis
    unfolding getDBC_def index_two [OF assms] L by simp
qed

lemma uOfXT_two:
  assumes "2 \<le> length x"
  shows "uOfXT self x t =
           Inr (if fle (x ! 0) (Fin 0) \<or> fle (x ! 1) (Fin 0) then Fin 1 else Fin 0)"
  unfolding uOfXT_def index_two [OF assms] by simp

lemma fle_Fin_iff: "fle (Fin a) y \<longleftrightarrow> y = PInf \<or> (\<exists>b. y = Fin b \<and> a \<le> b)"
  by (cases y) auto

lemma fle_Fin_right_iff: "fle y (Fin b) \<longleftrightarrow> y = NInf \<or> (\<exists>a. y = Fin a \<and> a \<le> b)"
  by (cases y) auto

text \<open>
  C4. For every point \<open>x\<close> (with its two coordinates) and every flag, \<open>getDBC\<close> returns the
  function constantly 1.0 when \<open>x[0] == 0.0\<close> or \<open>x[1] == 0.0\<close>; otherwise the function
  constantly 0.0 when \<open>x[0] == p.L[0]\<close> or \<open>x[1] == p.L[1]\<close>, with \<open>p.L = (1.0, 1.0)\<close> as
  the physics cell sets it; and \<open>None\<close> at every other point. At a corner satisfying both
  conditions the value 1.0 wins, and the flag does not affect the result.
\<close>

theorem getDBC_cases:
  assumes "2 \<le> length x"
  shows "getDBC (p_L (physics s)) x flag =
           Inr (if feq (x ! 0) (Fin 0) \<or> feq (x ! 1) (Fin 0) then Some (\<lambda>y t. Fin 1)
                else if feq (x ! 0) (Fin 1) \<or> feq (x ! 1) (Fin 1) then Some (\<lambda>y t. Fin 0)
                else None)
         \<and> ((feq (x ! 0) (Fin 0) \<or> feq (x ! 1) (Fin 0))
              \<and> (feq (x ! 0) (Fin 1) \<or> feq (x ! 1) (Fin 1)) \<longrightarrow>
              getDBC (p_L (physics s)) x flag = Inr (Some (\<lambda>y t. Fin 1)))
         \<and> getDBC (p_L (physics s)) x flag = getDBC (p_L (physics s)) x flag'"
  by (simp add: p_L_physics getDBC_two [OF assms])

theorem getDBC_cases_witness:
  "2 \<le> length [Fin 0, Fin 1]
   \<and> getDBC (p_L (physics fresh)) [Fin 0, Fin 1] True = Inr (Some (\<lambda>y t. Fin 1))
   \<and> getDBC (p_L (physics fresh)) [Fin 0, Fin 1] True
       = getDBC (p_L (physics fresh)) [Fin 0, Fin 1] (7::int)"
proof -
  have len: "2 \<le> length [Fin 0, Fin 1]"
    by simp
  note inst = getDBC_cases [OF len, where flag = True and flag' = "7::int" and s = fresh]
  from inst have "getDBC (p_L (physics fresh)) [Fin 0, Fin 1] True = Inr (Some (\<lambda>y t. Fin 1))"
    by simp
  moreover from inst
  have "getDBC (p_L (physics fresh)) [Fin 0, Fin 1] True
          = getDBC (p_L (physics fresh)) [Fin 0, Fin 1] (7::int)"
    by blast
  ultimately show ?thesis
    using len by blast
qed

text \<open>
  C5. For every point \<open>x\<close> (with its two coordinates) and every time \<open>t\<close>, \<open>IC.uOfXT\<close>
  returns 1.0 if \<open>x[0] <= 0.0\<close> or \<open>x[1] <= 0.0\<close> and 0.0 otherwise; the result does not
  depend on \<open>t\<close>.
\<close>

theorem uOfXT_cases:
  assumes "2 \<le> length x"
  shows "uOfXT self x t =
           Inr (if fle (x ! 0) (Fin 0) \<or> fle (x ! 1) (Fin 0) then Fin 1 else Fin 0)
         \<and> uOfXT self x t = uOfXT self x t'"
  by (simp add: uOfXT_two [OF assms])

theorem uOfXT_cases_witness:
  "2 \<le> length [Fin (1/2), Fin (-3)]
   \<and> uOfXT () [Fin (1/2), Fin (-3)] (Fin 5) = Inr (Fin 1)
   \<and> uOfXT () [Fin (1/2), Fin (-3)] (Fin 5) = uOfXT () [Fin (1/2), Fin (-3)] NaN"
proof -
  have len: "2 \<le> length [Fin (1/2), Fin (-3)]"
    by simp
  note inst = uOfXT_cases [OF len, where self = "()" and t = "Fin 5" and t' = NaN]
  from inst have "uOfXT () [Fin (1/2), Fin (-3)] (Fin 5) = Inr (Fin 1)"
    by simp
  moreover from inst
  have "uOfXT () [Fin (1/2), Fin (-3)] (Fin 5) = uOfXT () [Fin (1/2), Fin (-3)] NaN"
    by blast
  ultimately show ?thesis
    using len by blast
qed

text \<open>
  C9. At every point \<open>x\<close> of the boundary of the unit square where \<open>getDBC\<close> returns a
  function \<open>g\<close>, the value \<open>g(x, 0)\<close> is the value of the initial condition
  \<open>IC().uOfXT(x, 0)\<close>.
\<close>

theorem initial_data_matches_dirichlet:
  assumes "on_boundary x" and "getDBC (p_L (physics s)) x flag = Inr (Some g)"
  shows "uOfXT () x (Fin 0) = Inr (g x (Fin 0))"
proof -
  from assms(1) have len: "2 \<le> length x"
    by (simp add: on_boundary_def in_unit_square_def)
  from assms(1) obtain a b where x0: "x ! 0 = Fin a" and x1: "x ! 1 = Fin b"
    and ab: "0 \<le> a" "a \<le> 1" "0 \<le> b" "b \<le> 1"
    by (auto simp: on_boundary_def in_unit_square_def fle_Fin_iff fle_Fin_right_iff)
  from assms(2) have g: "getDBC [Fin 1, Fin 1] x flag = Inr (Some g)"
    by (simp add: p_L_physics)
  show ?thesis
  proof (cases "a = 0 \<or> b = 0")
    case True
    with x0 x1 g have "g = (\<lambda>y t. Fin 1)"
      by (auto simp: getDBC_two [OF len])
    with True x0 x1 show ?thesis
      by (auto simp: uOfXT_two [OF len])
  next
    case False
    with x0 x1 g have "g = (\<lambda>y t. Fin 0)"
      by (auto simp: getDBC_two [OF len] split: if_splits)
    with False ab x0 x1 show ?thesis
      by (auto simp: uOfXT_two [OF len])
  qed
qed

theorem initial_data_matches_dirichlet_witness:
  "on_boundary [Fin 1, Fin (1/2)]
   \<and> getDBC (p_L (physics fresh)) [Fin 1, Fin (1/2)] () = Inr (Some (\<lambda>y t. Fin 0))
   \<and> uOfXT () [Fin 1, Fin (1/2)] (Fin 0) = Inr (Fin 0)"
proof -
  have b: "on_boundary [Fin 1, Fin (1/2)]"
    by (simp add: on_boundary_def in_unit_square_def)
  have g: "getDBC (p_L (physics fresh)) [Fin 1, Fin (1/2)] () = Inr (Some (\<lambda>y t. Fin 0))"
    by (simp add: p_L_physics getDBC_two)
  from initial_data_matches_dirichlet [OF b g] b g show ?thesis
    by simp
qed

section \<open>The run of the notebook\<close>

lemma numerics_nearest:
  "numerics s = Inr (s\<lparr>n_tnList := map (\<lambda>i. rnd (of_int i / 40)) [0..10]\<rparr>)"
  by (simp add: numerics_def tnList_nearest)

lemma run_configured:
  assumes "configured fw"
  shows "run_cells fw notebook_cells s =
           run_cells fw [Initialize, Calculate, Plot, Show_Log]
             (operator_splitting
               (physics s\<lparr>n_tnList := map (\<lambda>i. rnd (of_int i / 40)) [0..10]\<rparr>))"
  using assms by (simp add: configured_def notebook_cells_def numerics_nearest)

lemma rest_keeps_configuration:
  "n_tnList (fst (run_cells fw [Initialize, Calculate, Plot, Show_Log] s)) = n_tnList s"
  "so_tnList (fst (run_cells fw [Initialize, Calculate, Plot, Show_Log] s)) = so_tnList s"
  "p_T (fst (run_cells fw [Initialize, Calculate, Plot, Show_Log] s)) = p_T s"
  by (simp_all add: calculate_def Let_def split: option.splits sum.splits)

text \<open>
  C7. The configured list \<open>n.tnList\<close> has exactly 11 entries, the i-th being the float
  \<open>i/40\<close> for \<open>i = 0..10\<close>: the list starts at 0.0, is strictly increasing and ends at
  0.25; and \<open>so.tnList\<close> is the same list.
\<close>

theorem tnList_configured:
  assumes "configured fw"
  shows "length (n_tnList (fst (run_cells fw notebook_cells s))) = 11
         \<and> comprehension (\<lambda>i. and_then (float_of_int i) (\<lambda>x. fdiv x (Fin 40))) [0..10]
             = Inr (n_tnList (fst (run_cells fw notebook_cells s)))
         \<and> n_tnList (fst (run_cells fw notebook_cells s)) = map (\<lambda>i. rnd (of_int i / 40)) [0..10]
         \<and> hd (n_tnList (fst (run_cells fw notebook_cells s))) = Fin 0
         \<and> sorted_wrt flt (n_tnList (fst (run_cells fw notebook_cells s)))
         \<and> last (n_tnList (fst (run_cells fw notebook_cells s))) = Fin (1 / 4)
         \<and> so_tnList (fst (run_cells fw notebook_cells s))
             = n_tnList (fst (run_cells fw notebook_cells s))"
proof -
  have "n_tnList (fst (run_cells fw notebook_cells s)) = map (\<lambda>i. rnd (of_int i / 40)) [0..10]"
    and "so_tnList (fst (run_cells fw notebook_cells s)) = map (\<lambda>i. rnd (of_int i / 40)) [0..10]"
    unfolding run_configured [OF assms] rest_keeps_configuration
    by (simp_all add: operator_splitting_def physics_def)
  then show ?thesis
    unfolding tnList_value_def [symmetric] tnList_nearest
    by (simp add: nearest_fortieths)
qed

theorem tnList_configured_witness:
  "configured (returning (PyBool False))
   \<and> length (n_tnList (fst (run_cells (returning (PyBool False)) notebook_cells fresh))) = 11
   \<and> hd (n_tnList (fst (run_cells (returning (PyBool False)) notebook_cells fresh))) = Fin 0
   \<and> last (n_tnList (fst (run_cells (returning (PyBool False)) notebook_cells fresh))) = Fin (1 / 4)
   \<and> so_tnList (fst (run_cells (returning (PyBool False)) notebook_cells fresh))
       = n_tnList (fst (run_cells (returning (PyBool False)) notebook_cells fresh))"
proof -
  have c: "configured (returning (PyBool False))"
    by (simp add: configured_def returning_def)
  from tnList_configured [OF c, of fresh] c show ?thesis
    by blast
qed

text \<open>
  C10. The last entry of \<open>n.tnList\<close> is 0.25, strictly less than the final time
  \<open>p.T = 1.0\<close>: the output times cover the first quarter of the declared interval.
\<close>

theorem tnList_ends_before_T:
  assumes "configured fw"
  shows "last (n_tnList (fst (run_cells fw notebook_cells s))) = Fin (1 / 4)
         \<and> p_T (fst (run_cells fw notebook_cells s)) = Fin 1
         \<and> flt (last (n_tnList (fst (run_cells fw notebook_cells s))))
               (p_T (fst (run_cells fw notebook_cells s)))
         \<and> fdiv (p_T (fst (run_cells fw notebook_cells s))) (Fin 4)
             = Inr (last (n_tnList (fst (run_cells fw notebook_cells s))))"
proof -
  have "rnd (1 / 4) = Fin (1 / 4)"
    unfolding rnd_unfold by (simp add: rnd_numeral)
  then show ?thesis
    unfolding run_configured [OF assms] rest_keeps_configuration
    by (simp add: operator_splitting_def physics_def nearest_fortieths)
qed

theorem tnList_ends_before_T_witness:
  "configured (returning PyNone)
   \<and> last (n_tnList (fst (run_cells (returning PyNone) notebook_cells fresh))) = Fin (1 / 4)
   \<and> p_T (fst (run_cells (returning PyNone) notebook_cells fresh)) = Fin 1
   \<and> flt (last (n_tnList (fst (run_cells (returning PyNone) notebook_cells fresh))))
         (p_T (fst (run_cells (returning PyNone) notebook_cells fresh)))"
proof -
  have c: "configured (returning PyNone)"
    by (simp add: configured_def returning_def)
  from tnList_ends_before_T [OF c, of fresh] c show ?thesis
    by blast
qed

lemma run_reaches_solve:
  assumes "reaches_solve fw"
  shows "\<exists>s'. solve_calls s' = solve_calls s
           \<and> run_cells fw notebook_cells s = run_cells fw [Calculate, Plot, Show_Log] s'"
proof -
  from assms have c: "configured fw" and i: "raises fw Initialize = None"
    by (simp_all add: reaches_solve_def)
  show ?thesis
    unfolding run_configured [OF c]
    by (rule exI, rule conjI [rotated], simp add: i)
      (simp add: operator_splitting_def physics_def)
qed

lemma run_from_solve:
  "solve_calls (fst (run_cells fw [Calculate, Plot, Show_Log] s)) = solve_calls s @ [''ladr_run1'']"
  "snd (run_cells fw [Calculate, Plot, Show_Log] s) =
     (case calculateSolution fw ''ladr_run1'' of
        Inl e \<Rightarrow> Some e
      | Inr v \<Rightarrow>
          if truthy v then Some AssertionError
          else case raises fw Plot of Some e \<Rightarrow> Some e | None \<Rightarrow> raises fw Show_Log)"
  by (simp_all add: calculate_def Let_def split: option.splits sum.splits)

lemma at_most_one_solve:
  "length (solve_calls (fst (run_cells fw notebook_cells s))) \<le> Suc (length (solve_calls s))"
  by (simp add: notebook_cells_def calculate_def Let_def numerics_nearest physics_def
      operator_splitting_def split: option.splits sum.splits)

text \<open>
  C3. The notebook's error handling is the assertion on the flag that
  \<open>ns.calculateSolution\<close> returns: a truthy flag makes the solve cell raise an assertion
  error, a falsy one lets the notebook continue, and nothing else is done with the result;
  an exception of the solve itself is not caught.
\<close>

theorem assertion_on_failure_flag:
  "(calculateSolution fw ''ladr_run1'' = Inr v \<and> truthy v \<longrightarrow>
      snd (exec_cell fw Calculate s) = Some AssertionError)
   \<and> (calculateSolution fw ''ladr_run1'' = Inr v \<and> \<not> truthy v \<longrightarrow>
      exec_cell fw Calculate s
        = (s\<lparr>solve_calls := solve_calls s @ [''ladr_run1''], failed := v\<rparr>, None))
   \<and> (calculateSolution fw ''ladr_run1'' = Inl e \<longrightarrow>
      snd (exec_cell fw Calculate s) = Some e)
   \<and> (reaches_solve fw \<and> calculateSolution fw ''ladr_run1'' = Inr v \<longrightarrow>
      snd (run_cells fw notebook_cells s)
        = (if truthy v then Some AssertionError
           else case raises fw Plot of Some e \<Rightarrow> Some e | None \<Rightarrow> raises fw Show_Log))"
proof -
  have "snd (run_cells fw notebook_cells s)
          = (if truthy v then Some AssertionError
             else case raises fw Plot of Some e \<Rightarrow> Some e | None \<Rightarrow> raises fw Show_Log)"
    if "reaches_solve fw" and "calculateSolution fw ''ladr_run1'' = Inr v"
  proof -
    from that(1) obtain s' where "run_cells fw notebook_cells s = run_cells fw [Calculate, Plot, Show_Log] s'"
      using run_reaches_solve by blast
    with that(2) show ?thesis
      by (simp only: run_from_solve sum.case)
  qed
  then show ?thesis
    by (simp add: calculate_def Let_def)
qed

theorem assertion_on_failure_flag_witness:
  "reaches_solve (returning (PyInt 3))
   \<and> calculateSolution (returning (PyInt 3)) ''ladr_run1'' = Inr (PyInt 3) \<and> truthy (PyInt 3)
   \<and> snd (exec_cell (returning (PyInt 3)) Calculate fresh) = Some AssertionError
   \<and> snd (run_cells (returning (PyInt 3)) notebook_cells fresh) = Some AssertionError
   \<and> reaches_solve (returning (PyBool False))
   \<and> calculateSolution (returning (PyBool False)) ''ladr_run1'' = Inr (PyBool False)
   \<and> \<not> truthy (PyBool False)
   \<and> snd (exec_cell (returning (PyBool False)) Calculate fresh) = None
   \<and> snd (run_cells (returning (PyBool False)) notebook_cells fresh) = None"
proof -
  have r: "reaches_solve (returning v)" for v
    by (simp add: reaches_solve_def configured_def returning_def)
  have c: "calculateSolution (returning v) ''ladr_run1'' = Inr v" for v
    by (simp add: returning_def)
  have q: "raises (returning v) Plot = None" "raises (returning v) Show_Log = None" for v
    by (simp_all add: returning_def)
  have t: "truthy (PyInt 3)" "\<not> truthy (PyBool False)"
    by simp_all
  from assertion_on_failure_flag [of "returning (PyInt 3)" "PyInt 3" fresh]
    assertion_on_failure_flag [of "returning (PyBool False)" "PyBool False" fresh]
    r c q t
  show ?thesis
    by simp
qed

text \<open>
  C6. Over a whole execution the notebook calls \<open>calculateSolution\<close> exactly once, with the
  name \<open>ladr_run1\<close>; in no execution of the cells in order is there a second call.
\<close>

theorem single_solve_call:
  "length (solve_calls (fst (run_cells fw notebook_cells s))) \<le> length (solve_calls s) + 1
   \<and> (reaches_solve fw \<longrightarrow>
        solve_calls (fst (run_cells fw notebook_cells s)) = solve_calls s @ [''ladr_run1''])
   \<and> (reaches_solve fw \<longrightarrow>
        solve_calls (fst (run_cells fw notebook_cells fresh)) = [''ladr_run1''])"
proof -
  have "solve_calls (fst (run_cells fw notebook_cells s0)) = solve_calls s0 @ [''ladr_run1'']"
    if "reaches_solve fw" for s0
  proof -
    from that obtain s' where "solve_calls s' = solve_calls s0"
      and "run_cells fw notebook_cells s0 = run_cells fw [Calculate, Plot, Show_Log] s'"
      using run_reaches_solve by blast
    then show ?thesis
      by (simp only: run_from_solve)
  qed
  from this [of s] this [of fresh] at_most_one_solve [of fw s] show ?thesis
    by (simp add: fresh_def)
qed

theorem single_solve_call_witness:
  "reaches_solve (returning (PyBool True))
   \<and> solve_calls (fst (run_cells (returning (PyBool True)) notebook_cells fresh)) = [''ladr_run1'']
   \<and> length (solve_calls (fst (run_cells (returning (PyBool True)) notebook_cells fresh))) \<le> 1"
proof -
  have r: "reaches_solve (returning (PyBool True))"
    by (simp add: reaches_solve_def configured_def returning_def)
  from single_solve_call [of "returning (PyBool True)" fresh] r show ?thesis
    by (simp add: fresh_def)
qed

end
